theory Spec2Isabelle
  imports Complex_Main
begin

section \<open>The token bucket of the rate-limiter article\<close>

text \<open>
  The class \<^verbatim>\<open>TokenBucket\<close> of the article "Handling traffic with rate limiters".
  A JavaScript number is \<open>NaN\<close> or a rational value. Arithmetic on values is exact, as
  the arithmetic of a double is on the integers below \<open>2^53\<close> and their halves;
  rounding and the infinities are not modelled (the only division is by the refill
  rate). An operation with a \<open>NaN\<close> operand gives \<open>NaN\<close>, and a comparison with a
  \<open>NaN\<close> operand is false.
\<close>

datatype number = NaN | Num rat

fun num_add :: "number \<Rightarrow> number \<Rightarrow> number" where
  "num_add (Num a) (Num b) = Num (a + b)"
| "num_add _ _ = NaN"

fun num_sub :: "number \<Rightarrow> number \<Rightarrow> number" where
  "num_sub (Num a) (Num b) = Num (a - b)"
| "num_sub _ _ = NaN"

fun num_mul :: "number \<Rightarrow> number \<Rightarrow> number" where
  "num_mul (Num a) (Num b) = Num (a * b)"
| "num_mul _ _ = NaN"

fun num_div :: "number \<Rightarrow> number \<Rightarrow> number" where
  "num_div (Num a) (Num b) = (if b = 0 then NaN else Num (a / b))"
| "num_div _ _ = NaN"

fun num_lt :: "number \<Rightarrow> number \<Rightarrow> bool" where
  "num_lt (Num a) (Num b) = (a < b)"
| "num_lt _ _ = False"

fun num_le :: "number \<Rightarrow> number \<Rightarrow> bool" where
  "num_le (Num a) (Num b) = (a \<le> b)"
| "num_le _ _ = False"

fun Math_floor :: "number \<Rightarrow> number" where
  "Math_floor (Num a) = Num (of_int \<lfloor>a\<rfloor>)"
| "Math_floor NaN = NaN"

fun Math_min :: "number \<Rightarrow> number \<Rightarrow> number" where
  "Math_min (Num a) (Num b) = Num (min a b)"
| "Math_min _ _ = NaN"

text \<open>
  A \<^verbatim>\<open>Date\<close> is its time value (\<^verbatim>\<open>getTime()\<close>): a whole number of milliseconds
  of magnitude at most \<open>8.64 * 10^15\<close>, or \<open>NaN\<close> for an Invalid Date.
  \<^verbatim>\<open>new Date(x)\<close> clips \<open>x\<close> to such a value. The clock reading \<^verbatim>\<open>new Date()\<close> of
  a method is the argument \<open>now\<close>.
\<close>

definition MAX_TIME :: rat where
  "MAX_TIME = 8640000000000000"

fun new_Date :: "number \<Rightarrow> number" where
  "new_Date (Num a) =
     (if \<bar>a\<bar> > MAX_TIME then NaN
      else Num (of_int (if a < 0 then \<lceil>a\<rceil> else \<lfloor>a\<rfloor>)))"
| "new_Date NaN = NaN"

definition BUCKET_CAPACITY :: number where
  "BUCKET_CAPACITY = Num 5"

definition BUCKET_REFILL_RATE :: number where
  "BUCKET_REFILL_RATE = Num 5000"

record TokenBucket =
  refilledAt :: number
  id_str :: string
  capacity :: number
  remaining :: number

text \<open>
  The constructor: \<open>tokens\<close> defaults to the capacity and \<open>refilledAt\<close> to the
  current time when the caller leaves them out (\<open>None\<close>). It stores what it is given.
\<close>

definition constructor :: "number \<Rightarrow> string \<Rightarrow> number option \<Rightarrow> number option \<Rightarrow> TokenBucket" where
  "constructor now ident tokens refilled =
     \<lparr> refilledAt = (case refilled of None \<Rightarrow> now | Some t \<Rightarrow> t),
       id_str = ident,
       capacity = BUCKET_CAPACITY,
       remaining = (case tokens of None \<Rightarrow> BUCKET_CAPACITY | Some n \<Rightarrow> n) \<rparr>"

definition refillIfNeeded :: "number \<Rightarrow> TokenBucket \<Rightarrow> TokenBucket" where
  "refillIfNeeded now b =
     (let elapsed = num_sub now (refilledAt b) in
      if num_lt elapsed BUCKET_REFILL_RATE then b
      else
        let intervalsPassed = Math_floor (num_div elapsed BUCKET_REFILL_RATE) in
        if num_le intervalsPassed (Num 0) then b
        else b \<lparr> remaining := Math_min (capacity b) (num_add (remaining b) intervalsPassed),
                 refilledAt :=
                   new_Date (num_add (refilledAt b) (num_mul intervalsPassed BUCKET_REFILL_RATE)) \<rparr>)"

definition consumeToken :: "number \<Rightarrow> TokenBucket \<Rightarrow> TokenBucket" where
  "consumeToken now b =
     (let b' = refillIfNeeded now b in
      if num_lt (Num 0) (remaining b') then b' \<lparr> remaining := num_sub (remaining b') (Num 1) \<rparr>
      else b')"

text \<open>\<^verbatim>\<open>getTokensLeft\<close> reads no clock; it returns its result and the bucket it leaves.\<close>

definition getTokensLeft :: "TokenBucket \<Rightarrow> number \<times> TokenBucket" where
  "getTokensLeft b = (remaining b, b)"

definition hasAvailableTokens :: "number \<Rightarrow> TokenBucket \<Rightarrow> bool \<times> TokenBucket" where
  "hasAvailableTokens now b =
     (let b' = refillIfNeeded now b in (num_lt (Num 0) (remaining b'), b'))"








section \<open>The constants module and the build configuration\<close>

text \<open>
  An object literal is the list of its properties in the order they are written; a
  property's value is a string, a number, a call of an imported function without
  arguments, or an array.
\<close>

datatype js_value = JString string | JNumber int | JCall string | JArray "js_value list"

type_synonym js_object = "(string \<times> js_value) list"

definition string_field :: "js_object \<Rightarrow> string \<Rightarrow> string option" where
  "string_field obj k = (case map_of obj k of Some (JString s) \<Rightarrow> Some s | _ \<Rightarrow> None)"

definition number_field :: "js_object \<Rightarrow> string \<Rightarrow> int option" where
  "number_field obj k = (case map_of obj k of Some (JNumber n) \<Rightarrow> Some n | _ \<Rightarrow> None)"

definition SITE :: js_object where
  "SITE =
     [(''NAME'', JString ''Thiago Willecke | dev''),
      (''EMAIL'', JString ''thiagogwillecke@gmail.com''),
      (''NUM_POSTS_ON_HOMEPAGE'', JNumber 3),
      (''NUM_WORKS_ON_HOMEPAGE'', JNumber 2),
      (''NUM_PROJECTS_ON_HOMEPAGE'', JNumber 3)]"

definition SOCIALS :: "js_object list" where
  "SOCIALS =
     [[(''NAME'', JString ''github''),
       (''HREF'', JString ''https://github.com/twillecke'')],
      [(''NAME'', JString ''linkedin''),
       (''HREF'', JString ''https://www.linkedin.com/in/thiago-guedes-willecke/'')]]"

text \<open>
  The configuration file: its default imports (local name, module) and the object
  literal it passes to \<^verbatim>\<open>defineConfig\<close>.
\<close>

definition config_imports :: "(string \<times> string) list" where
  "config_imports =
     [(''mdx'', ''@astrojs/mdx''),
      (''sitemap'', ''@astrojs/sitemap''),
      (''tailwind'', ''@astrojs/tailwind'')]"

definition defineConfig :: js_object where
  "defineConfig =
     [(''site'', JString ''https://twillecke.github.io/''),
      (''base'', JString ''/site/''),
      (''integrations'', JArray [JCall ''mdx'', JCall ''sitemap'', JCall ''tailwind''])]"

text \<open>The modules whose integrations the configuration enables, in order.\<close>

fun called_module :: "js_value \<Rightarrow> string option" where
  "called_module (JCall f) = map_of config_imports f"
| "called_module _ = None"

definition integrations :: "js_object \<Rightarrow> string option list" where
  "integrations cfg =
     (case map_of cfg ''integrations'' of
        Some (JArray vs) \<Rightarrow> map called_module vs
      | _ \<Rightarrow> [])"

section \<open>Content documents\<close>

text \<open>
  A content document is a front-matter block followed by a body. The front matter is
  the list of its \<open>key: value\<close> lines; a value is a quoted string or a boolean. The
  body is prose and is not modelled.
\<close>

datatype yaml_value = YString string | YBool bool

type_synonym front_matter = "(string \<times> yaml_value) list"

definition rate_limiters :: front_matter where
  "rate_limiters =
     [(''title'', YString ''Handling traffic with rate limiters''),
      (''description'', YString ''A TypeScript implementation''),
      (''date'', YString ''Jul 21 2025''),
      (''draft'', YBool False)]"

definition automated_tests :: front_matter where
  "automated_tests =
     [(''title'', YString ''Automated Tests''),
      (''description'', YString ''What are automated tests and why should you implement them?''),
      (''date'', YString ''Dec 23 2024'')]"

definition polling_vs_event_listener :: front_matter where
  "polling_vs_event_listener =
     [(''title'', YString ''Polling vs Event Listener''),
      (''description'',
         YString ''Exploring the difference between polling and listening to events''),
      (''date'', YString ''Jan 04 2025''),
      (''draft'', YBool False)]"

definition fragment_shaders :: front_matter where
  "fragment_shaders =
     [(''title'', YString ''An introduction to fragment shaders''),
      (''description'', YString ''What are they and how to implement them''),
      (''date'', YString ''Jul 07 2025''),
      (''draft'', YBool False)]"

text \<open>
  The four documents of the source files are all articles (posts); no work item and no
  project item is among the source files.
\<close>

datatype content_type = Post | Work | Project

definition POSTS :: "front_matter list" where
  "POSTS = [rate_limiters, automated_tests, polling_vs_event_listener, fragment_shaders]"

fun items :: "content_type \<Rightarrow> front_matter list" where
  "items Post = POSTS"
| "items Work = []"
| "items Project = []"

definition CONTENT :: "front_matter list" where
  "CONTENT = items Post @ items Work @ items Project"

definition available :: "content_type \<Rightarrow> nat" where
  "available t = length (items t)"

fun count_field :: "content_type \<Rightarrow> string" where
  "count_field Post = ''NUM_POSTS_ON_HOMEPAGE''"
| "count_field Work = ''NUM_WORKS_ON_HOMEPAGE''"
| "count_field Project = ''NUM_PROJECTS_ON_HOMEPAGE''"

text \<open>
  A count field is within the available items when it is a number between 0 and the
  number of items of its type.
\<close>

definition count_within :: "js_object \<Rightarrow> (content_type \<Rightarrow> nat) \<Rightarrow> content_type \<Rightarrow> bool" where
  "count_within site avail t =
     (case number_field site (count_field t) of
        Some n \<Rightarrow> 0 \<le> n \<and> n \<le> int (avail t)
      | None \<Rightarrow> False)"

definition counts_within_available :: "js_object \<Rightarrow> (content_type \<Rightarrow> nat) \<Rightarrow> bool" where
  "counts_within_available site avail \<longleftrightarrow>
     count_within site avail Post \<and> count_within site avail Work \<and>
     count_within site avail Project"

text \<open>Front-matter fields by kind of value.\<close>

definition has_string :: "front_matter \<Rightarrow> string \<Rightarrow> bool" where
  "has_string fm k = (case map_of fm k of Some (YString s) \<Rightarrow> True | _ \<Rightarrow> False)"

definition has_bool :: "front_matter \<Rightarrow> string \<Rightarrow> bool" where
  "has_bool fm k = (case map_of fm k of Some (YBool b) \<Rightarrow> True | _ \<Rightarrow> False)"

definition has_all_four :: "front_matter \<Rightarrow> bool" where
  "has_all_four fm \<longleftrightarrow>
     has_string fm ''title'' \<and> has_string fm ''description'' \<and>
     has_string fm ''date'' \<and> has_bool fm ''draft''"

definition draft_optional :: "front_matter \<Rightarrow> bool" where
  "draft_optional fm \<longleftrightarrow>
     has_string fm ''title'' \<and> has_string fm ''description'' \<and>
     has_string fm ''date'' \<and>
     (case map_of fm ''draft'' of None \<Rightarrow> True | Some (YBool b) \<Rightarrow> True | Some _ \<Rightarrow> False)"

section \<open>Dates and URLs\<close>

text \<open>
  The front-matter dates are written as an English month abbreviation, a day and a
  year, separated by single spaces. Such a string parses as a valid date when the month
  is one of the twelve, day and year are decimal numbers, and the day exists in that
  month of that year.
\<close>

record date =
  year :: nat
  month :: nat
  day :: nat

fun split_on :: "char \<Rightarrow> string \<Rightarrow> string list" where
  "split_on sep [] = [[]]"
| "split_on sep (c # cs) =
     (if c = sep then [] # split_on sep cs
      else (case split_on sep cs of
              [] \<Rightarrow> [[c]]
            | w # ws \<Rightarrow> (c # w) # ws))"

fun position :: "nat \<Rightarrow> 'a \<Rightarrow> 'a list \<Rightarrow> nat option" where
  "position i w [] = None"
| "position i w (x # xs) = (if w = x then Some i else position (Suc i) w xs)"

definition digit :: "char \<Rightarrow> nat option" where
  "digit c = position 0 c ''0123456789''"

fun decimal :: "nat \<Rightarrow> string \<Rightarrow> nat option" where
  "decimal acc [] = Some acc"
| "decimal acc (c # cs) =
     (case digit c of None \<Rightarrow> None | Some d \<Rightarrow> decimal (10 * acc + d) cs)"

definition parse_nat :: "string \<Rightarrow> nat option" where
  "parse_nat s = (if s = [] then None else decimal 0 s)"

definition month_number :: "string \<Rightarrow> nat option" where
  "month_number w =
     position 1 w
       [''Jan'', ''Feb'', ''Mar'', ''Apr'', ''May'', ''Jun'',
        ''Jul'', ''Aug'', ''Sep'', ''Oct'', ''Nov'', ''Dec'']"

definition leap_year :: "nat \<Rightarrow> bool" where
  "leap_year y \<longleftrightarrow> (y mod 4 = 0 \<and> y mod 100 \<noteq> 0) \<or> y mod 400 = 0"

definition days_in_month :: "nat \<Rightarrow> nat \<Rightarrow> nat" where
  "days_in_month y m =
     (if m = 2 then (if leap_year y then 29 else 28)
      else if m = 4 \<or> m = 6 \<or> m = 9 \<or> m = 11 then 30
      else 31)"

definition parse_date :: "string \<Rightarrow> date option" where
  "parse_date s =
     (case split_on CHR '' '' s of
        [mw, dw, yw] \<Rightarrow>
          (case month_number mw of
             None \<Rightarrow> None
           | Some m \<Rightarrow>
               (case parse_nat dw of
                  None \<Rightarrow> None
                | Some d \<Rightarrow>
                    (case parse_nat yw of
                       None \<Rightarrow> None
                     | Some y \<Rightarrow>
                         if 1 \<le> d \<and> d \<le> days_in_month y m
                         then Some \<lparr> year = y, month = m, day = d \<rparr>
                         else None)))
      | _ \<Rightarrow> None)"

definition date_of :: "front_matter \<Rightarrow> date option" where
  "date_of fm =
     (case map_of fm ''date'' of Some (YString s) \<Rightarrow> parse_date s | _ \<Rightarrow> None)"

text \<open>
  A syntactically valid absolute URL, after RFC 3986: a scheme (a letter, then letters,
  digits, \<open>+\<close>, \<open>-\<close> or \<open>.\<close>), the separator \<open>://\<close>, a non-empty host of letters,
  digits, \<open>-\<close> and \<open>.\<close>, and a path, query and fragment of the characters a URI may hold.
\<close>

definition is_alpha :: "char \<Rightarrow> bool" where
  "is_alpha c \<longleftrightarrow>
     c \<in> set ''abcdefghijklmnopqrstuvwxyzABCDEFGHIJKLMNOPQRSTUVWXYZ''"

definition is_digit :: "char \<Rightarrow> bool" where
  "is_digit c \<longleftrightarrow> c \<in> set ''0123456789''"

definition scheme_char :: "char \<Rightarrow> bool" where
  "scheme_char c \<longleftrightarrow> is_alpha c \<or> is_digit c \<or> c \<in> set ''+-.''"

definition host_char :: "char \<Rightarrow> bool" where
  "host_char c \<longleftrightarrow> is_alpha c \<or> is_digit c \<or> c \<in> set ''-.''"

definition uri_char :: "char \<Rightarrow> bool" where
  "uri_char c \<longleftrightarrow> is_alpha c \<or> is_digit c \<or> c \<in> set ''-._~:/?#[]@!$&()*+,;=%''"

definition is_absolute_url :: "string \<Rightarrow> bool" where
  "is_absolute_url s =
     (let scheme = takeWhile (\<lambda>c. c \<noteq> CHR '':'') s;
          rest = dropWhile (\<lambda>c. c \<noteq> CHR '':'') s;
          host = takeWhile (\<lambda>c. c \<noteq> CHR ''/'') (drop 3 rest);
          path = dropWhile (\<lambda>c. c \<noteq> CHR ''/'') (drop 3 rest)
      in (case scheme of [] \<Rightarrow> False | c # cs \<Rightarrow> is_alpha c \<and> list_all scheme_char cs)
         \<and> take 3 rest = ''://''
         \<and> host \<noteq> [] \<and> list_all host_char host
         \<and> list_all uri_char path)"

definition href_valid :: "js_object \<Rightarrow> bool" where
  "href_valid entry =
     (case string_field entry ''HREF'' of Some u \<Rightarrow> is_absolute_url u | None \<Rightarrow> False)"

section \<open>Properties of the token bucket\<close>


















text \<open>
  C10: \<^verbatim>\<open>getTokensLeft\<close> returns the remaining count and leaves the bucket as it
  was, the remaining count and \<open>refilledAt\<close> included, whatever the clock says;
  \<^verbatim>\<open>hasAvailableTokens\<close> and \<^verbatim>\<open>consumeToken\<close> refill first and work on the refilled
  bucket. On an empty bucket last refilled at time 0 and asked at time 5000,
  \<^verbatim>\<open>getTokensLeft\<close> answers 0 and changes nothing, while the other two refill one
  token and move \<open>refilledAt\<close> to 5000.
\<close>

theorem C10_getTokensLeft_observer:
  "fst (getTokensLeft b) = remaining b
   \<and> snd (getTokensLeft b) = b
   \<and> remaining (snd (getTokensLeft b)) = remaining b
   \<and> refilledAt (snd (getTokensLeft b)) = refilledAt b
   \<and> snd (hasAvailableTokens now b) = refillIfNeeded now b
   \<and> fst (hasAvailableTokens now b) = num_lt (Num 0) (remaining (refillIfNeeded now b))
   \<and> refilledAt (consumeToken now b) = refilledAt (refillIfNeeded now b)
   \<and> remaining (consumeToken now b) =
       (if num_lt (Num 0) (remaining (refillIfNeeded now b))
        then num_sub (remaining (refillIfNeeded now b)) (Num 1)
        else remaining (refillIfNeeded now b))
   \<and> getTokensLeft (constructor (Num 0) ''user'' (Some (Num 0)) (Some (Num 0)))
       = (Num 0, constructor (Num 0) ''user'' (Some (Num 0)) (Some (Num 0)))
   \<and> hasAvailableTokens (Num 5000) (constructor (Num 0) ''user'' (Some (Num 0)) (Some (Num 0)))
       = (True, constructor (Num 0) ''user'' (Some (Num 1)) (Some (Num 5000)))
   \<and> consumeToken (Num 5000) (constructor (Num 0) ''user'' (Some (Num 0)) (Some (Num 0)))
       = constructor (Num 0) ''user'' (Some (Num 0)) (Some (Num 5000))"
  by (simp add: getTokensLeft_def hasAvailableTokens_def consumeToken_def Let_def
        refillIfNeeded_def constructor_def BUCKET_CAPACITY_def BUCKET_REFILL_RATE_def
        MAX_TIME_def)

section \<open>Properties of the constants and the configuration\<close>

lemma site_counts:
  "number_field SITE ''NUM_POSTS_ON_HOMEPAGE'' = Some 3"
  "number_field SITE ''NUM_WORKS_ON_HOMEPAGE'' = Some 2"
  "number_field SITE ''NUM_PROJECTS_ON_HOMEPAGE'' = Some 3"
  by (simp_all add: number_field_def SITE_def)

lemma length_CONTENT: "length CONTENT = 4"
  by (simp add: CONTENT_def POSTS_def)

text \<open>
  However four documents are sorted into posts, works and projects, the three sorts
  together hold four documents.
\<close>

lemma filter_sorting_length:
  "length (filter (\<lambda>d. kind d = Post) ds) + length (filter (\<lambda>d. kind d = Work) ds)
     + length (filter (\<lambda>d. kind d = Project) ds) = length ds"
proof (induction ds)
  case Nil
  then show ?case by simp
next
  case (Cons d ds)
  then show ?case by (cases "kind d") simp_all
qed

text \<open>
  So the three counts, 8 together, are not all within the available items, whichever
  type each of the four documents is taken to have.
\<close>

lemma counts_exceed_every_sorting:
  "\<not> counts_within_available SITE (\<lambda>t. length (filter (\<lambda>d. kind d = t) CONTENT))"
proof
  assume a: "counts_within_available SITE (\<lambda>t. length (filter (\<lambda>d. kind d = t) CONTENT))"
  have "3 \<le> length (filter (\<lambda>d. kind d = Post) CONTENT)"
       "2 \<le> length (filter (\<lambda>d. kind d = Work) CONTENT)"
       "3 \<le> length (filter (\<lambda>d. kind d = Project) CONTENT)"
    using a by (simp_all add: counts_within_available_def count_within_def site_counts)
  with filter_sorting_length [of kind CONTENT] length_CONTENT show False
    by simp
qed

text \<open>
  C1 as stated fails: \<open>NUM_WORKS_ON_HOMEPAGE\<close> is 2 and \<open>NUM_PROJECTS_ON_HOMEPAGE\<close>
  is 3, and the source files hold no work item and no project item.
\<close>

theorem C1_counts_exceed_available: "\<not> counts_within_available SITE available"
  by (simp add: counts_within_available_def count_within_def site_counts available_def)

text \<open>
  C1, amended: every landing-page count field of \<open>SITE\<close> is a non-negative integer,
  and \<open>NUM_POSTS_ON_HOMEPAGE\<close> is no larger than the number of posts among the source
  files.
\<close>

theorem C1_counts_nonnegative:
  "(\<forall>t. \<exists>n. number_field SITE (count_field t) = Some n \<and> 0 \<le> n)
   \<and> count_within SITE available Post"
proof
  show "\<forall>t. \<exists>n. number_field SITE (count_field t) = Some n \<and> 0 \<le> n"
  proof
    fix t show "\<exists>n. number_field SITE (count_field t) = Some n \<and> 0 \<le> n"
      by (cases t) (simp_all add: site_counts)
  qed
  show "count_within SITE available Post"
    by (simp add: count_within_def site_counts available_def POSTS_def)
qed

text \<open>
  C4: the base path of the configuration is a non-empty string whose first and last
  characters are the path separator.
\<close>

theorem C4_base_path:
  "\<exists>p. string_field defineConfig ''base'' = Some p
       \<and> p \<noteq> [] \<and> hd p = CHR ''/'' \<and> last p = CHR ''/''"
  by (simp add: string_field_def defineConfig_def)

lemma socials_all_valid: "list_all href_valid SOCIALS"
  by code_simp

text \<open>C5: the \<open>HREF\<close> of every entry of \<open>SOCIALS\<close> is a valid absolute URL.\<close>

theorem C5_socials_href_valid: "\<forall>entry \<in> set SOCIALS. href_valid entry"
  using socials_all_valid by (simp add: list_all_iff)

theorem C5_socials_href_valid_witness:
  "[(''NAME'', JString ''github''), (''HREF'', JString ''https://github.com/twillecke'')]
     \<in> set SOCIALS
   \<and> href_valid
       [(''NAME'', JString ''github''), (''HREF'', JString ''https://github.com/twillecke'')]"
proof -
  have m: "[(''NAME'', JString ''github''), (''HREF'', JString ''https://github.com/twillecke'')]
     \<in> set SOCIALS"
    by (simp add: SOCIALS_def)
  with C5_socials_href_valid show ?thesis
    by blast
qed

lemma site_is_url: "is_absolute_url ''https://twillecke.github.io/''"
  by code_simp

text \<open>
  C6: the configuration declares exactly three properties: \<open>site\<close>, an absolute URL;
  \<open>base\<close>, a string; and \<open>integrations\<close>, the list of the MDX, sitemap and Tailwind
  integrations, in this order.
\<close>

theorem C6_configuration_record:
  "map fst defineConfig = [''site'', ''base'', ''integrations'']
   \<and> (\<exists>u. string_field defineConfig ''site'' = Some u \<and> is_absolute_url u)
   \<and> (\<exists>p. string_field defineConfig ''base'' = Some p)
   \<and> integrations defineConfig =
       [Some ''@astrojs/mdx'', Some ''@astrojs/sitemap'', Some ''@astrojs/tailwind'']"
  by (simp add: defineConfig_def string_field_def integrations_def config_imports_def
        site_is_url)

text \<open>
  C8: \<open>SITE\<close> consists of a name string, an email string and one count per content
  type (posts, works, projects), each a whole number between 0 and 3.
\<close>

theorem C8_site_identity_record:
  "map fst SITE = ''NAME'' # ''EMAIL'' # map count_field [Post, Work, Project]
   \<and> distinct (map count_field [Post, Work, Project])
   \<and> (\<exists>name. string_field SITE ''NAME'' = Some name)
   \<and> (\<exists>email. string_field SITE ''EMAIL'' = Some email)
   \<and> (\<forall>t. \<exists>n. number_field SITE (count_field t) = Some n \<and> 0 \<le> n \<and> n \<le> 3)"
proof -
  have keys: "map fst SITE = ''NAME'' # ''EMAIL'' # map count_field [Post, Work, Project]"
    by (simp add: SITE_def)
  have dist: "distinct (map count_field [Post, Work, Project])"
    by simp
  have strs: "(\<exists>name. string_field SITE ''NAME'' = Some name)
      \<and> (\<exists>email. string_field SITE ''EMAIL'' = Some email)"
    by (simp add: string_field_def SITE_def)
  have nums: "\<exists>n. number_field SITE (count_field t) = Some n \<and> 0 \<le> n \<and> n \<le> 3" for t
    by (cases t) (simp_all add: site_counts)
  from keys dist strs nums show ?thesis
    by blast
qed

section \<open>Properties of the content documents\<close>

lemma set_CONTENT:
  "set CONTENT = {rate_limiters, automated_tests, polling_vs_event_listener, fragment_shaders}"
  by (simp add: CONTENT_def POSTS_def)

lemma docs_distinct:
  "rate_limiters \<noteq> automated_tests" "polling_vs_event_listener \<noteq> automated_tests"
  "fragment_shaders \<noteq> automated_tests"
  by (simp_all add: rate_limiters_def automated_tests_def polling_vs_event_listener_def
        fragment_shaders_def)

lemma draft_optional_docs:
  "draft_optional rate_limiters" "draft_optional automated_tests"
  "draft_optional polling_vs_event_listener" "draft_optional fragment_shaders"
  by (simp_all add: draft_optional_def has_string_def rate_limiters_def automated_tests_def
        polling_vs_event_listener_def fragment_shaders_def)

lemma has_all_four_docs:
  "has_all_four rate_limiters" "has_all_four polling_vs_event_listener"
  "has_all_four fragment_shaders"
  by (simp_all add: has_all_four_def has_string_def has_bool_def rate_limiters_def
        polling_vs_event_listener_def fragment_shaders_def)

text \<open>
  C2 as stated fails: the front matter of "Automated Tests" has a title, a description
  and a date, and no \<open>draft\<close> field.
\<close>

theorem C2_automated_tests_without_draft:
  "automated_tests \<in> set CONTENT \<and> map_of automated_tests ''draft'' = None
   \<and> \<not> has_all_four automated_tests"
  by (simp add: set_CONTENT has_all_four_def has_bool_def automated_tests_def)

text \<open>
  C2, amended: the front matter of every content document has a title, a description
  and a date, all strings; its \<open>draft\<close> field is optional and a boolean where present.
  Every document but "Automated Tests" has all four fields.
\<close>

theorem C2_draft_optional:
  "\<forall>fm \<in> set CONTENT. draft_optional fm \<and> (fm \<noteq> automated_tests \<longrightarrow> has_all_four fm)"
  by (simp add: set_CONTENT draft_optional_docs has_all_four_docs)

theorem C2_draft_optional_witness:
  "polling_vs_event_listener \<in> set CONTENT
   \<and> polling_vs_event_listener \<noteq> automated_tests
   \<and> draft_optional polling_vs_event_listener
   \<and> has_all_four polling_vs_event_listener"
proof -
  have m: "polling_vs_event_listener \<in> set CONTENT"
    by (simp add: set_CONTENT)
  have n: "polling_vs_event_listener \<noteq> automated_tests"
    by (rule docs_distinct)
  from C2_draft_optional m n show ?thesis
    by blast
qed

lemma dates:
  "date_of rate_limiters = Some \<lparr>year = 2025, month = 7, day = 21\<rparr>"
  "date_of automated_tests = Some \<lparr>year = 2024, month = 12, day = 23\<rparr>"
  "date_of polling_vs_event_listener = Some \<lparr>year = 2025, month = 1, day = 4\<rparr>"
  "date_of fragment_shaders = Some \<lparr>year = 2025, month = 7, day = 7\<rparr>"
  by code_simp+

text \<open>
  C3: the \<open>date\<close> field of every content document is a string that parses as a valid
  date.
\<close>

theorem C3_dates_parse: "\<forall>fm \<in> set CONTENT. \<exists>d. date_of fm = Some d"
  by (simp add: set_CONTENT dates)

theorem C3_dates_parse_witness:
  "rate_limiters \<in> set CONTENT \<and> (\<exists>d. date_of rate_limiters = Some d)"
proof -
  have m: "rate_limiters \<in> set CONTENT"
    by (simp add: set_CONTENT)
  with C3_dates_parse show ?thesis
    by blast
qed

end
